theory Spec2Isabelle
  imports Main "HOL-Library.Word" "HOL-Library.AList" "HOL-Library.Multiset"
begin

section \<open>Strings and numbers of the source language\<close>

text \<open>
  A TypeScript string is a sequence of UTF-16 code units. The regular expressions of the
  source are written without the \<^verbatim>\<open>u\<close> flag, so they too work on code units.
  \<open>utf16\<close> embeds an ASCII literal.
\<close>

type_synonym code_unit = "16 word"
type_synonym jstring = "code_unit list"

definition utf16 :: "string \<Rightarrow> jstring" where
  "utf16 s = map (\<lambda>c. of_nat (of_char c)) s"

text \<open>
  The template literals of the source print an array index plus one, a positive integer,
  in decimal. An array index is below \<open>2^32\<close>, far from the magnitudes that print with
  an exponent.
\<close>

definition digit :: "nat \<Rightarrow> code_unit" where
  "digit d = of_nat (48 + d)"

fun decimal :: "nat \<Rightarrow> jstring" where
  "decimal n = (if n < 10 then [digit n] else decimal (n div 10) @ [digit (n mod 10)])"

declare decimal.simps [simp del]

definition is_digit :: "code_unit \<Rightarrow> bool" where
  "is_digit c = (0x30 \<le> c \<and> c \<le> 0x39)"

section \<open>Questions\<close>

datatype QuestionType = TEXT | PARAGRAPH_TEXT | MULTIPLE_CHOICE | CHECKBOX | SCALE | DATE | TIME

text \<open>\<open>options\<close> is an optional member of the interface: \<open>None\<close> is \<^verbatim>\<open>undefined\<close>.\<close>

record Question =
  questionText :: jstring
  type :: QuestionType
  options :: "jstring list option"
  isRequired :: bool

section \<open>Property names\<close>

text \<open>
  \<^verbatim>\<open>name.replace(/,/g, ';')\<close> of the response form (SurveyResponse, the version that
  carries \<^verbatim>\<open>sanitizePropertyName\<close>).
\<close>

definition sanitizePropertyName :: "jstring \<Rightarrow> jstring" where
  "sanitizePropertyName name = map (\<lambda>c. if c = 0x2C then 0x3B else c) name"

text \<open>
  The key under which the response form stores an answer (\<^verbatim>\<open>handleInputChange\<close>):
  \<^verbatim>\<open>`Q${questionIndex + 1}: ${sanitizePropertyName(question.questionText)}`\<close>.
\<close>

definition responseKey :: "nat \<Rightarrow> Question \<Rightarrow> jstring" where
  "responseKey questionIndex question =
     utf16 ''Q'' @ decimal (questionIndex + 1) @ utf16 '': ''
       @ sanitizePropertyName (questionText question)"

text \<open>
  The name under which \<^verbatim>\<open>createNotionSurveyDatabase\<close> creates the property of a
  question: \<^verbatim>\<open>`Q${index + 1}: ${question.questionText}`\<close>.
\<close>

definition propertyName :: "nat \<Rightarrow> Question \<Rightarrow> jstring" where
  "propertyName index question =
     utf16 ''Q'' @ decimal (index + 1) @ utf16 '': '' @ questionText question"

section \<open>Notion database properties\<close>

text \<open>
  A property object of the Notion API is a tagged union: its \<^verbatim>\<open>type\<close> member names
  the one configuration member it carries. The constructors are the tags the source
  writes or switches on; \<open>Prop_other\<close> is any other tag. The members
  \<^verbatim>\<open>rich_text: {}\<close>, \<^verbatim>\<open>date: {}\<close>, \<^verbatim>\<open>title: {}\<close>,
  \<^verbatim>\<open>created_time: {}\<close> and \<^verbatim>\<open>email: {}\<close> are empty objects.
\<close>

record select_option =
  name :: jstring
  color :: jstring

datatype NotionProperty =
    Prop_title
  | Prop_created_time
  | Prop_email
  | Prop_rich_text
  | Prop_select "select_option list"
  | Prop_multi_select "select_option list"
  | Prop_number jstring
  | Prop_date
  | Prop_other

text \<open>
  A JavaScript object with string keys, as the list of its own entries in creation order.
  These are the entries that \<^verbatim>\<open>Object.entries\<close> lists and \<^verbatim>\<open>JSON.stringify\<close> posts;
  what the object inherits from its prototype is not among them.
\<close>

type_synonym 'v js_object = "(jstring \<times> 'v) list"

text \<open>
  The assignment \<^verbatim>\<open>obj[key] = v\<close> of an object \<open>v\<close> to a key of an object made by an
  object literal. For every key but \<^verbatim>\<open>__proto__\<close> it is \<open>AList.update key v obj\<close>: the
  value of a key the object has is replaced in place, and a new key is appended at the
  end. The key \<^verbatim>\<open>__proto__\<close> runs the setter inherited from
  \<^verbatim>\<open>Object.prototype\<close>: \<open>v\<close> becomes the prototype of the object, and the object
  gets no entry of its own. The prototypes set this way are plain objects with writable
  members only, so they change no later assignment and add nothing to what is posted.
\<close>

definition set_property :: "jstring \<Rightarrow> 'v \<Rightarrow> 'v js_object \<Rightarrow> 'v js_object" where
  "set_property key v obj = (if key = utf16 ''__proto__'' then obj else AList.update key v obj)"

text \<open>
  \<^verbatim>\<open>Object.entries\<close> lists the keys that are array indices first (canonical decimal
  numerals below \<open>2^32 - 1\<close>), in ascending numeric order, and then every other key in
  creation order.
\<close>

definition digits_value :: "jstring \<Rightarrow> nat" where
  "digits_value key = foldl (\<lambda>acc c. 10 * acc + (unat c - 48)) 0 key"

definition array_index :: "jstring \<Rightarrow> nat option" where
  "array_index key =
     (if key \<noteq> [] \<and> list_all is_digit key \<and> (length key = 1 \<or> hd key \<noteq> 0x30)
         \<and> digits_value key < 4294967295
      then Some (digits_value key) else None)"

definition Object_entries :: "'v js_object \<Rightarrow> (jstring \<times> 'v) list" where
  "Object_entries obj =
     sort_key (\<lambda>(key, v). the (array_index key))
         (filter (\<lambda>(key, v). array_index key \<noteq> None) obj)
       @ filter (\<lambda>(key, v). array_index key = None) obj"

section \<open>Questions to a database schema\<close>

text \<open>
  \<^verbatim>\<open>getRandomNotionColor\<close> reads \<^verbatim>\<open>Math.random\<close>. The random source is the sequence
  of the indices \<^verbatim>\<open>Math.floor(Math.random() * colors.length)\<close> still to come; each lies
  below \<^verbatim>\<open>colors.length\<close>, which the model enforces by reducing the value modulo that
  length. A call takes the head of the sequence and leaves the rest.
\<close>

type_synonym random_source = "nat \<Rightarrow> nat"

definition colors :: "jstring list" where
  "colors = map utf16 [''gray'', ''brown'', ''orange'', ''yellow'', ''green'', ''blue'',
     ''purple'', ''pink'', ''red'']"

definition getRandomNotionColor :: "random_source \<Rightarrow> jstring \<times> random_source" where
  "getRandomNotionColor rnd = (colors ! (rnd 0 mod length colors), (\<lambda>i. rnd (Suc i)))"

text \<open>\<^verbatim>\<open>.map(opt => ({ name: opt, color: getRandomNotionColor() }))\<close>, left to right.\<close>

fun colored_options ::
  "jstring list \<Rightarrow> random_source \<Rightarrow> select_option list \<times> random_source" where
  "colored_options [] rnd = ([], rnd)"
| "colored_options (opt # opts) rnd =
     (let (c, rnd') = getRandomNotionColor rnd;
          (rest, rnd'') = colored_options opts rnd'
      in (\<lparr>name = opt, color = c\<rparr> # rest, rnd''))"

text \<open>\<^verbatim>\<open>question.options || []\<close>: an array, even an empty one, is truthy.\<close>

definition options_or_empty :: "Question \<Rightarrow> jstring list" where
  "options_or_empty question = (case options question of None \<Rightarrow> [] | Some opts \<Rightarrow> opts)"

text \<open>
  The \<^verbatim>\<open>default\<close> branch of the switch answers \<^verbatim>\<open>rich_text\<close> as well; the seven
  members of the enumeration leave nothing for it.
\<close>

definition questionToNotionProperty ::
  "Question \<Rightarrow> random_source \<Rightarrow> NotionProperty \<times> random_source" where
  "questionToNotionProperty question rnd =
     (case type question of
        TEXT \<Rightarrow> (Prop_rich_text, rnd)
      | PARAGRAPH_TEXT \<Rightarrow> (Prop_rich_text, rnd)
      | TIME \<Rightarrow> (Prop_rich_text, rnd)
      | MULTIPLE_CHOICE \<Rightarrow>
          (let (opts, rnd') = colored_options (options_or_empty question) rnd
           in (Prop_select opts, rnd'))
      | CHECKBOX \<Rightarrow>
          (let (opts, rnd') = colored_options (options_or_empty question) rnd
           in (Prop_multi_select opts, rnd'))
      | SCALE \<Rightarrow> (Prop_number (utf16 ''number''), rnd)
      | DATE \<Rightarrow> (Prop_date, rnd))"

text \<open>
  The schema that \<^verbatim>\<open>createNotionSurveyDatabase\<close> builds as \<^verbatim>\<open>properties\<close>
  (\<^verbatim>\<open>toExternalSchema\<close> in the specification): the three fixed properties, then
  \<^verbatim>\<open>questions.forEach((question, index) => ...)\<close>. The configuration check before it
  and the request after it do not touch the object. Every key assigned here begins with
  \<open>Q\<close>, so the assignment is \<open>AList.update\<close>.
\<close>

definition fixed_properties :: "NotionProperty js_object" where
  "fixed_properties =
     [(utf16 ''Response ID'', Prop_title),
      (utf16 ''Submitted At'', Prop_created_time),
      (utf16 ''Email'', Prop_email)]"

fun add_questions ::
  "nat \<Rightarrow> Question list \<Rightarrow> NotionProperty js_object \<Rightarrow> random_source
     \<Rightarrow> NotionProperty js_object \<times> random_source" where
  "add_questions index [] properties rnd = (properties, rnd)"
| "add_questions index (question # rest) properties rnd =
     (let (prop, rnd') = questionToNotionProperty question rnd
      in add_questions (index + 1) rest
           (AList.update (propertyName index question) prop properties) rnd')"

definition createNotionSurveyDatabase ::
  "Question list \<Rightarrow> random_source \<Rightarrow> NotionProperty js_object" where
  "createNotionSurveyDatabase questions rnd =
     fst (add_questions 0 questions fixed_properties rnd)"

section \<open>A database schema back to questions\<close>

text \<open>
  \<^verbatim>\<open>name.match(/^Q\d+: (.+)$/)\<close>. Without flags \<^verbatim>\<open>\d\<close> is an ASCII digit,
  \<^verbatim>\<open>.\<close> is any code unit but the four line terminators, and the anchors are the ends
  of the string. The result is the first capture group, or \<open>None\<close> for \<^verbatim>\<open>null\<close>.
\<close>

definition is_line_terminator :: "code_unit \<Rightarrow> bool" where
  "is_line_terminator c = (c = 0x0A \<or> c = 0x0D \<or> c = 0x2028 \<or> c = 0x2029)"

definition questionMatch :: "jstring \<Rightarrow> jstring option" where
  "questionMatch key =
     (case key of
        [] \<Rightarrow> None
      | q # after_q \<Rightarrow>
          if q = 0x51 \<and> takeWhile is_digit after_q \<noteq> [] then
            (case dropWhile is_digit after_q of
               c1 # c2 # captured \<Rightarrow>
                 if c1 = 0x3A \<and> c2 = 0x20 \<and> captured \<noteq> []
                    \<and> list_all (\<lambda>c. \<not> is_line_terminator c) captured
                 then Some captured else None
             | _ \<Rightarrow> None)
          else None)"

text \<open>
  What the pattern says, read off the regular expression: the key is \<open>Q\<close>, one or more
  digits, a colon, a space, and a non-empty capture group free of line terminators.
\<close>

definition matches_question_pattern :: "jstring \<Rightarrow> jstring \<Rightarrow> bool" where
  "matches_question_pattern key captured \<longleftrightarrow>
     (\<exists>ds. ds \<noteq> [] \<and> list_all is_digit ds \<and> captured \<noteq> []
        \<and> list_all (\<lambda>c. \<not> is_line_terminator c) captured
        \<and> key = utf16 ''Q'' @ ds @ utf16 '': '' @ captured)"

definition system_property :: "jstring \<Rightarrow> bool" where
  "system_property key \<longleftrightarrow>
     key = utf16 ''Response ID'' \<or> key = utf16 ''Submitted At'' \<or> key = utf16 ''Email''"

text \<open>
  The loop of \<^verbatim>\<open>getNotionDatabaseSchema\<close> over \<^verbatim>\<open>Object.entries(data.properties)\<close>
  (\<^verbatim>\<open>fromExternalSchema\<close> in the specification): a system property is skipped, every
  other entry pushes one question.
\<close>

definition property_question :: "jstring \<Rightarrow> NotionProperty \<Rightarrow> Question" where
  "property_question key prop =
     (let text = (case questionMatch key of Some captured \<Rightarrow> captured | None \<Rightarrow> key);
          (ty, opts) =
            (case prop of
               Prop_rich_text \<Rightarrow> (TEXT, [])
             | Prop_select os \<Rightarrow> (MULTIPLE_CHOICE, map name os)
             | Prop_multi_select os \<Rightarrow> (CHECKBOX, map name os)
             | Prop_number fmt \<Rightarrow> (SCALE, [])
             | Prop_date \<Rightarrow> (DATE, [])
             | _ \<Rightarrow> (TEXT, []))
      in \<lparr>questionText = text, type = ty, options = Some opts, isRequired = False\<rparr>)"

fun entries_questions :: "(jstring \<times> NotionProperty) list \<Rightarrow> Question list" where
  "entries_questions [] = []"
| "entries_questions ((key, prop) # rest) =
     (if system_property key then entries_questions rest
      else property_question key prop # entries_questions rest)"

definition getNotionDatabaseSchema :: "NotionProperty js_object \<Rightarrow> Question list" where
  "getNotionDatabaseSchema schema = entries_questions (Object_entries schema)"

section \<open>Submitting a response\<close>

text \<open>
  The values of \<^verbatim>\<open>responses: Record<string, any>\<close>, as far as
  \<^verbatim>\<open>submitNotionResponse\<close> tells them apart. A number is only passed on, so its type
  stays a parameter. \<open>JDate t\<close> is a \<^verbatim>\<open>Date\<close> object with time value \<open>t\<close> in
  milliseconds, \<open>JDate None\<close> an invalid one. \<open>JObject\<close> is any other object; a
  function, a symbol or a bigint takes the same path as the last four constructors.
\<close>

datatype 'n js_value =
    JString jstring
  | JNumber 'n
  | JArray "'n js_value list"
  | JDate "int option"
  | JBoolean bool
  | JNull
  | JUndefined
  | JObject "(jstring \<times> 'n js_value) list"

text \<open>
  The property values of the page to create. \<open>Page_date t\<close> is
  \<^verbatim>\<open>{date: {start: d.toISOString()}}\<close> for a date \<open>d\<close> of time value \<open>t\<close>: the ISO
  text determines the time value and back, so the time value stands for the text.
  \<open>Page_multi_select vs\<close> is \<^verbatim>\<open>{multi_select: vs.map(v => ({name: v}))}\<close>.
\<close>

datatype 'n page_property =
    Page_title jstring
  | Page_date int
  | Page_rich_text jstring
  | Page_number 'n
  | Page_multi_select "'n js_value list"

datatype submit_error = Not_configured | Invalid_time_value

text \<open>
  \<^verbatim>\<open>`Response-${Date.now()}`\<close>: an integer number of milliseconds, printed in decimal
  (a time value stays below the magnitudes that print with an exponent).
\<close>

definition int_to_string :: "int \<Rightarrow> jstring" where
  "int_to_string i = (if i < 0 then 0x2D # decimal (nat (- i)) else decimal (nat i))"

text \<open>
  The two entries the function writes first; \<open>now_ms\<close> is what \<^verbatim>\<open>Date.now()\<close>
  returns and \<open>now_date\<close> the time value of \<^verbatim>\<open>new Date()\<close>.
\<close>

definition generated_properties :: "int \<Rightarrow> int \<Rightarrow> 'n page_property js_object" where
  "generated_properties now_ms now_date =
     [(utf16 ''Response ID'', Page_title (utf16 ''Response-'' @ int_to_string now_ms)),
      (utf16 ''Submitted At'', Page_date now_date)]"

text \<open>
  The chain of type tests on one value: \<^verbatim>\<open>typeof value === 'string'\<close>, then
  \<^verbatim>\<open>'number'\<close>, then \<^verbatim>\<open>Array.isArray(value)\<close>, then
  \<^verbatim>\<open>value instanceof Date\<close>, where \<^verbatim>\<open>toISOString\<close> throws a RangeError on an
  invalid date. No branch is left for any other value: \<open>Inr None\<close>.
\<close>

definition response_property :: "'n js_value \<Rightarrow> submit_error + 'n page_property option" where
  "response_property v =
     (case v of
        JString s \<Rightarrow> Inr (Some (Page_rich_text s))
      | JNumber n \<Rightarrow> Inr (Some (Page_number n))
      | JArray vs \<Rightarrow> Inr (Some (Page_multi_select vs))
      | JDate None \<Rightarrow> Inl Invalid_time_value
      | JDate (Some t) \<Rightarrow> Inr (Some (Page_date t))
      | _ \<Rightarrow> Inr None)"

fun map_responses ::
  "(jstring \<times> 'n js_value) list \<Rightarrow> 'n page_property js_object
     \<Rightarrow> submit_error + 'n page_property js_object" where
  "map_responses [] properties = Inr properties"
| "map_responses ((key, v) # rest) properties =
     (case response_property v of
        Inl e \<Rightarrow> Inl e
      | Inr None \<Rightarrow> map_responses rest properties
      | Inr (Some p) \<Rightarrow> map_responses rest (set_property key p properties))"

text \<open>
  The \<^verbatim>\<open>properties\<close> that \<^verbatim>\<open>submitNotionResponse\<close> posts (\<^verbatim>\<open>encode\<close> in the
  specification), or the error it throws before posting. \<open>configured\<close> is
  \<^verbatim>\<open>isNotionConfigured()\<close>. The keys of \<open>responses\<close> are the names the caller has
  filed the answers under.
\<close>

definition submitNotionResponse ::
  "bool \<Rightarrow> int \<Rightarrow> int \<Rightarrow> 'n js_value js_object \<Rightarrow> submit_error + 'n page_property js_object" where
  "submitNotionResponse configured now_ms now_date responses =
     (if \<not> configured then Inl Not_configured
      else map_responses (Object_entries responses) (generated_properties now_ms now_date))"

text \<open>The values the chain of type tests has a branch for.\<close>

definition encodable :: "'n js_value \<Rightarrow> bool" where
  "encodable v = (case v of JString s \<Rightarrow> True | JNumber n \<Rightarrow> True | JArray vs \<Rightarrow> True
                  | JDate t \<Rightarrow> True | _ \<Rightarrow> False)"

text \<open>
  The values the specification lists as supported: a string, a number, an array of strings
  or a Date.
\<close>

definition spec_supported :: "'n js_value \<Rightarrow> bool" where
  "spec_supported v =
     (case v of JString s \<Rightarrow> True | JNumber n \<Rightarrow> True
      | JArray vs \<Rightarrow> list_all (\<lambda>x. case x of JString s \<Rightarrow> True | _ \<Rightarrow> False) vs
      | JDate t \<Rightarrow> True | _ \<Rightarrow> False)"

section \<open>Local storage\<close>

text \<open>
  \<^verbatim>\<open>localStorage\<close> maps a key to a string or to nothing. A stored string is kept as what
  its reader makes of it: the empty string, which the readers test for before parsing; a
  string on which \<^verbatim>\<open>JSON.parse\<close> throws; or a string that parses to a value of the
  type the reader casts to, which is also what \<^verbatim>\<open>JSON.stringify\<close> of such a value
  stores. A string that parses to a value of another shape is outside the model, and a
  write is taken to succeed.
\<close>

datatype 'a stored = Empty_text | Unparseable | Parsed 'a

type_synonym 'a localStorage = "jstring \<Rightarrow> 'a stored option"

text \<open>
  \<open>createdAt\<close> is an ISO date string; the model keeps the time value that
  \<^verbatim>\<open>new Date(createdAt).getTime()\<close> reads from it.
\<close>

record FormMetadata =
  id' :: jstring
  title :: jstring
  questionCount :: nat
  createdAt :: int
  responseData :: "jstring option"
  analysisResult :: "jstring option"
  editUrl :: "jstring option"
  publishedUrl :: "jstring option"

definition STORAGE_KEY :: jstring where
  "STORAGE_KEY = utf16 ''formulateAiForms''"

text \<open>
  \<^verbatim>\<open>forms.sort((a, b) => time(b) - time(a))\<close>: the sort of the language is stable, and
  the comparator orders by descending time, which is ascending order of the negated time.
\<close>

definition getFormsMetadata ::
  "FormMetadata list localStorage \<Rightarrow> FormMetadata list \<times> FormMetadata list localStorage" where
  "getFormsMetadata ls =
     (case ls STORAGE_KEY of
        None \<Rightarrow> ([], ls)
      | Some Empty_text \<Rightarrow> ([], ls)
      | Some Unparseable \<Rightarrow> ([], ls(STORAGE_KEY := None))
      | Some (Parsed forms) \<Rightarrow> (sort_key (\<lambda>f. - createdAt f) forms, ls))"


record EmailHistoryItem =
  email :: jstring
  lastUsed :: jstring
  frequency :: nat

definition EMAIL_HISTORY_KEY :: jstring where
  "EMAIL_HISTORY_KEY = utf16 ''notion_survey_email_history''"

text \<open>
  \<^verbatim>\<open>getEmailHistory\<close> returns the parsed value of a non-empty stored string; its
  \<^verbatim>\<open>catch\<close> only logs, and the function never writes to the storage.
\<close>

definition getEmailHistory ::
  "EmailHistoryItem list localStorage
     \<Rightarrow> EmailHistoryItem list \<times> EmailHistoryItem list localStorage" where
  "getEmailHistory ls =
     (case ls EMAIL_HISTORY_KEY of
        None \<Rightarrow> ([], ls)
      | Some Empty_text \<Rightarrow> ([], ls)
      | Some Unparseable \<Rightarrow> ([], ls)
      | Some (Parsed history) \<Rightarrow> (history, ls))"

section \<open>Decimal numerals\<close>

lemma unat_digit: "d < 10 \<Longrightarrow> unat (digit d) = 48 + d"
  unfolding digit_def unat_of_nat by simp

lemma digit_is_digit: "d < 10 \<Longrightarrow> is_digit (digit d)"
  unfolding is_digit_def word_le_nat_alt by (simp add: unat_digit)

lemma digit_inj: "d < 10 \<Longrightarrow> e < 10 \<Longrightarrow> digit d = digit e \<Longrightarrow> d = e"
proof -
  assume d: "d < 10" and e: "e < 10" and eq: "digit d = digit e"
  from eq have "unat (digit d) = unat (digit e)" by simp
  with d e show "d = e" by (simp add: unat_digit)
qed

lemma decimal_digits: "list_all is_digit (decimal n)"
proof (induction n rule: decimal.induct)
  case (1 n)
  show ?case
  proof (cases "n < 10")
    case True
    then show ?thesis by (simp add: decimal.simps [of n] digit_is_digit)
  next
    case False
    with 1 show ?thesis by (simp add: decimal.simps [of n] digit_is_digit)
  qed
qed

lemma decimal_nonempty: "decimal n \<noteq> []"
  by (subst decimal.simps) simp

lemma decimal_inj: "decimal m = decimal n \<Longrightarrow> m = n"
proof (induction m arbitrary: n rule: decimal.induct)
  case (1 m)
  show ?case
  proof (cases "m < 10")
    case m: True
    show ?thesis
    proof (cases "n < 10")
      case True
      with m "1.prems" show ?thesis
        by (simp add: decimal.simps [of m] decimal.simps [of n] digit_inj)
    next
      case False
      with m "1.prems" decimal_nonempty [of "n div 10"] show ?thesis
        by (simp add: decimal.simps [of m] decimal.simps [of n])
    qed
  next
    case m: False
    show ?thesis
    proof (cases "n < 10")
      case True
      with m "1.prems" decimal_nonempty [of "m div 10"] show ?thesis
        by (simp add: decimal.simps [of m] decimal.simps [of n])
    next
      case False
      with m "1.prems" have eq: "decimal (m div 10) = decimal (n div 10)"
        and dg: "digit (m mod 10) = digit (n mod 10)"
        by (simp_all add: decimal.simps [of m] decimal.simps [of n])
      from "1.IH" [OF m eq] have "m div 10 = n div 10" .
      moreover from dg have "m mod 10 = n mod 10" by (auto intro: digit_inj)
      ultimately show ?thesis by (metis div_mult_mod_eq)
    qed
  qed
qed

section \<open>Keys of the schema\<close>

lemma utf16_Q: "utf16 ''Q'' = [0x51]"
  by (simp add: utf16_def)

lemma utf16_colon_space: "utf16 '': '' = [0x3A, 0x20]"
  by (simp add: utf16_def)

lemma colon_not_digit: "\<not> is_digit 0x3A"
  by (simp add: is_digit_def)

lemma Q_not_digit: "\<not> is_digit 0x51"
  by (simp add: is_digit_def)

lemma propertyName_unfold:
  "propertyName i q = 0x51 # decimal (i + 1) @ 0x3A # 0x20 # questionText q"
  by (simp add: propertyName_def utf16_Q utf16_colon_space)

lemma digits_then_colon_eq:
  assumes "list_all is_digit xs" "list_all is_digit ys"
    and "xs @ 0x3A # r = ys @ 0x3A # s"
  shows "xs = ys"
proof -
  have "takeWhile is_digit (xs @ 0x3A # r) = xs"
    using assms(1) colon_not_digit by (simp add: list_all_iff takeWhile_tail)
  moreover have "takeWhile is_digit (ys @ 0x3A # s) = ys"
    using assms(2) colon_not_digit by (simp add: list_all_iff takeWhile_tail)
  ultimately show ?thesis using assms(3) by simp
qed

lemma propertyName_inj: "propertyName i q = propertyName j q' \<Longrightarrow> i = j"
proof -
  assume "propertyName i q = propertyName j q'"
  then have "decimal (i + 1) @ 0x3A # 0x20 # questionText q
      = decimal (j + 1) @ 0x3A # 0x20 # questionText q'"
    by (simp add: propertyName_unfold)
  then have "decimal (i + 1) = decimal (j + 1)"
    by (rule digits_then_colon_eq [OF decimal_digits decimal_digits])
  then show "i = j" by (auto dest: decimal_inj)
qed

lemma propertyName_not_system: "\<not> system_property (propertyName i q)"
  by (simp add: system_property_def propertyName_unfold utf16_def)

lemma propertyName_not_array_index: "array_index (propertyName i q) = None"
  by (simp add: array_index_def propertyName_unfold Q_not_digit)

lemma set_property_propertyName:
  "set_property (propertyName i q) v obj = AList.update (propertyName i q) v obj"
  by (simp add: set_property_def propertyName_unfold utf16_def)

lemma update_fresh: "k \<notin> fst ` set al \<Longrightarrow> AList.update k v al = al @ [(k, v)]"
  by (induction al) auto


lemma add_questions_keys:
  "(\<And>k q. i \<le> k \<Longrightarrow> propertyName k q \<notin> fst ` set props) \<Longrightarrow>
   map fst (fst (add_questions i qs props rnd))
     = map fst props @ map (\<lambda>(k, q). propertyName k q) (List.enumerate i qs)"
proof (induction qs arbitrary: i props rnd)
  case Nil
  then show ?case by simp
next
  case (Cons q qs)
  obtain np rnd' where p: "questionToNotionProperty q rnd = (np, rnd')"
    by (cases "questionToNotionProperty q rnd")
  have upd: "AList.update (propertyName i q) np props = props @ [(propertyName i q, np)]"
    using Cons.prems [of i q] by (simp add: update_fresh)
  have fresh: "propertyName k q' \<notin> fst ` set (props @ [(propertyName i q, np)])"
    if "i + 1 \<le> k" for k q'
  proof -
    from that have "propertyName k q' \<noteq> propertyName i q"
      by (auto dest: propertyName_inj)
    moreover from that have "propertyName k q' \<notin> fst ` set props"
      using Cons.prems [of k q'] by simp
    ultimately show ?thesis by auto
  qed
  show ?case
    using Cons.IH [of "i + 1" "props @ [(propertyName i q, np)]" rnd', OF fresh]
    by (simp add: p upd)
qed

lemma fixed_keys_fresh: "propertyName k q \<notin> fst ` set fixed_properties"
  using propertyName_not_system [of k q]
  by (auto simp: fixed_properties_def system_property_def)

lemma createNotionSurveyDatabase_keys:
  "map fst (createNotionSurveyDatabase qs rnd)
     = [utf16 ''Response ID'', utf16 ''Submitted At'', utf16 ''Email'']
       @ map (\<lambda>(k, q). propertyName k q) (List.enumerate 0 qs)"
  unfolding createNotionSurveyDatabase_def
  by (subst add_questions_keys) (simp_all add: fixed_keys_fresh, simp add: fixed_properties_def)

lemma question_keys_distinct:
  "distinct (map (\<lambda>(k, q). propertyName k q) (List.enumerate i qs))"
proof -
  have d: "distinct (map fst (List.enumerate i qs))" by simp
  have "inj_on (\<lambda>(k, q). propertyName k q) (set (List.enumerate i qs))"
  proof (rule inj_onI)
    fix x y
    assume x: "x \<in> set (List.enumerate i qs)" and y: "y \<in> set (List.enumerate i qs)"
      and eq: "(case x of (k, q) \<Rightarrow> propertyName k q) = (case y of (k, q) \<Rightarrow> propertyName k q)"
    obtain k q where xk: "x = (k, q)" by (cases x)
    obtain k' q' where yk: "y = (k', q')" by (cases y)
    from eq xk yk have k: "k = k'" by (auto dest: propertyName_inj)
    from x y xk yk k have "(k, q) \<in> set (List.enumerate i qs)" "(k, q') \<in> set (List.enumerate i qs)"
      by simp_all
    with d have "q = q'" by (rule eq_key_imp_eq_value)
    with k xk yk show "x = y" by simp
  qed
  moreover from d have "distinct (List.enumerate i qs)" by (rule distinct_map [THEN iffD1, THEN conjunct1])
  ultimately show ?thesis by (simp only: distinct_map)
qed

lemma reserved_keys_distinct:
  "distinct [utf16 ''Response ID'', utf16 ''Submitted At'', utf16 ''Email'']"
  by (simp add: utf16_def)

lemma propertyName_not_reserved:
  "propertyName i q \<noteq> utf16 ''Response ID''"
  "propertyName i q \<noteq> utf16 ''Submitted At''"
  "propertyName i q \<noteq> utf16 ''Email''"
  using propertyName_not_system [of i q] by (simp_all add: system_property_def)

lemma createNotionSurveyDatabase_distinct:
  "distinct (map fst (createNotionSurveyDatabase qs rnd))"
proof -
  have "set [utf16 ''Response ID'', utf16 ''Submitted At'', utf16 ''Email'']
      \<inter> set (map (\<lambda>(k, q). propertyName k q) (List.enumerate 0 qs)) = {}"
    by (auto simp: propertyName_not_reserved [symmetric])
  then show ?thesis
    unfolding createNotionSurveyDatabase_keys
    using reserved_keys_distinct question_keys_distinct [of 0 qs]
    by (simp only: distinct_append)
qed

text \<open>
  C2. For every list of questions, whatever the random colours, the schema has as many
  entries as there are questions plus three: the three fixed properties Response ID,
  Submitted At and Email first, then one key per question in order, and no key occurs
  twice.
\<close>

theorem C2_schema_cardinality:
  "length (createNotionSurveyDatabase questions rnd) = length questions + 3
   \<and> map fst (createNotionSurveyDatabase questions rnd)
       = [utf16 ''Response ID'', utf16 ''Submitted At'', utf16 ''Email'']
         @ map (\<lambda>(index, question). propertyName index question) (List.enumerate 0 questions)
   \<and> distinct (map fst (createNotionSurveyDatabase questions rnd))"
proof -
  have "length (map fst (createNotionSurveyDatabase questions rnd)) = length questions + 3"
    by (simp only: createNotionSurveyDatabase_keys) simp
  then have "length (createNotionSurveyDatabase questions rnd) = length questions + 3"
    by (simp only: length_map)
  then show ?thesis
    using createNotionSurveyDatabase_keys [of questions rnd]
      createNotionSurveyDatabase_distinct [of questions rnd]
    by blast
qed


theorem C2_schema_cardinality_witness:
  "length (createNotionSurveyDatabase
      [\<lparr>questionText = utf16 ''How satisfied are you?'', type = SCALE,
         options = Some [utf16 ''5''], isRequired = True\<rparr>,
       \<lparr>questionText = utf16 ''Why?'', type = TEXT, options = None, isRequired = False\<rparr>]
      (\<lambda>i. 0)) = 5
   \<and> map fst (createNotionSurveyDatabase
      [\<lparr>questionText = utf16 ''How satisfied are you?'', type = SCALE,
         options = Some [utf16 ''5''], isRequired = True\<rparr>,
       \<lparr>questionText = utf16 ''Why?'', type = TEXT, options = None, isRequired = False\<rparr>]
      (\<lambda>i. 0))
     = [utf16 ''Response ID'', utf16 ''Submitted At'', utf16 ''Email'',
        utf16 ''Q1: How satisfied are you?'', utf16 ''Q2: Why?'']"
  using C2_schema_cardinality
    [of "[\<lparr>questionText = utf16 ''How satisfied are you?'', type = SCALE,
           options = Some [utf16 ''5''], isRequired = True\<rparr>,
          \<lparr>questionText = utf16 ''Why?'', type = TEXT, options = None, isRequired = False\<rparr>]"
        "\<lambda>i. 0"]
  by (simp add: propertyName_def utf16_def decimal.simps digit_def)

lemma Object_entries_plain:
  "(\<And>key v. (key, v) \<in> set obj \<Longrightarrow> array_index key = None) \<Longrightarrow> Object_entries obj = obj"
proof -
  assume a: "\<And>key v. (key, v) \<in> set obj \<Longrightarrow> array_index key = None"
  then have "filter (\<lambda>(key, v). array_index key \<noteq> None) obj = []"
    by (auto simp: filter_empty_conv)
  moreover from a have "filter (\<lambda>(key, v). array_index key = None) obj = obj"
    by (auto simp: filter_id_conv)
  ultimately show ?thesis by (simp add: Object_entries_def)
qed

lemma reserved_not_array_index:
  "array_index (utf16 ''Response ID'') = None"
  "array_index (utf16 ''Submitted At'') = None"
  "array_index (utf16 ''Email'') = None"
  by (simp_all add: array_index_def utf16_def is_digit_def)

lemma createNotionSurveyDatabase_entries:
  "Object_entries (createNotionSurveyDatabase qs rnd) = createNotionSurveyDatabase qs rnd"
proof (rule Object_entries_plain)
  fix key v
  assume "(key, v) \<in> set (createNotionSurveyDatabase qs rnd)"
  then have "key \<in> set (map fst (createNotionSurveyDatabase qs rnd))" by force
  then show "array_index key = None"
    unfolding createNotionSurveyDatabase_keys
    by (auto simp: reserved_not_array_index propertyName_not_array_index)
qed

lemma entries_questions_eq:
  "entries_questions es
     = map (\<lambda>(key, p). property_question key p) (filter (\<lambda>(key, p). \<not> system_property key) es)"
  by (induction es rule: entries_questions.induct) simp_all

lemma createNotionSurveyDatabase_single:
  "createNotionSurveyDatabase [q] rnd
     = fixed_properties @ [(propertyName 0 q, fst (questionToNotionProperty q rnd))]"
  using fixed_keys_fresh [of 0 q]
  by (simp add: createNotionSurveyDatabase_def update_fresh split: prod.split)

lemma fixed_are_system: "filter (\<lambda>(key, p). \<not> system_property key) fixed_properties = []"
  by (simp add: fixed_properties_def system_property_def)

lemma roundtrip_single:
  "getNotionDatabaseSchema (createNotionSurveyDatabase [q] rnd)
     = [property_question (propertyName 0 q) (fst (questionToNotionProperty q rnd))]"
  unfolding getNotionDatabaseSchema_def createNotionSurveyDatabase_entries entries_questions_eq
  by (simp add: createNotionSurveyDatabase_single fixed_are_system propertyName_not_system)

lemma colored_options_names: "map name (fst (colored_options opts rnd)) = opts"
  by (induction opts arbitrary: rnd) (simp_all add: case_prod_beta Let_def)

lemma property_question_required: "isRequired (property_question key p) = False"
  by (cases p) (simp_all add: property_question_def Let_def)

lemma property_question_type:
  "type (property_question key (fst (questionToNotionProperty q rnd)))
     = (case type q of TEXT \<Rightarrow> TEXT | PARAGRAPH_TEXT \<Rightarrow> TEXT | TIME \<Rightarrow> TEXT
        | MULTIPLE_CHOICE \<Rightarrow> MULTIPLE_CHOICE | CHECKBOX \<Rightarrow> CHECKBOX
        | SCALE \<Rightarrow> SCALE | DATE \<Rightarrow> DATE)"
  by (cases "type q")
    (simp_all add: property_question_def questionToNotionProperty_def Let_def case_prod_beta)

lemma property_question_options:
  "options (property_question key (fst (questionToNotionProperty q rnd)))
     = (if type q = MULTIPLE_CHOICE \<or> type q = CHECKBOX then Some (options_or_empty q)
        else Some [])"
proof (cases "type q")
  case MULTIPLE_CHOICE
  then show ?thesis
    using colored_options_names [of "options_or_empty q" rnd]
    by (simp add: property_question_def questionToNotionProperty_def Let_def case_prod_beta)
next
  case CHECKBOX
  then show ?thesis
    using colored_options_names [of "options_or_empty q" rnd]
    by (simp add: property_question_def questionToNotionProperty_def Let_def case_prod_beta)
qed (simp_all add: property_question_def questionToNotionProperty_def Let_def)

text \<open>
  C3. A single question sent through the schema and read back is one question; its type is
  the original one for MULTIPLE_CHOICE, CHECKBOX and DATE, and TEXT for TEXT,
  PARAGRAPH_TEXT and TIME.
\<close>

theorem C3_kind_roundtrip:
  "(type q \<in> {MULTIPLE_CHOICE, CHECKBOX, DATE} \<longrightarrow>
      map type (getNotionDatabaseSchema (createNotionSurveyDatabase [q] rnd)) = [type q])
   \<and> (type q \<in> {TEXT, PARAGRAPH_TEXT, TIME} \<longrightarrow>
      map type (getNotionDatabaseSchema (createNotionSurveyDatabase [q] rnd)) = [TEXT])"
  by (auto simp: roundtrip_single property_question_type)

theorem C3_kind_roundtrip_witness:
  "map type (getNotionDatabaseSchema (createNotionSurveyDatabase
      [\<lparr>questionText = utf16 ''Pick some'', type = CHECKBOX,
         options = Some [utf16 ''Red'', utf16 ''Blue''], isRequired = True\<rparr>] (\<lambda>i. i)))
     = [CHECKBOX]
   \<and> map type (getNotionDatabaseSchema (createNotionSurveyDatabase
      [\<lparr>questionText = utf16 ''When?'', type = TIME, options = None, isRequired = False\<rparr>]
      (\<lambda>i. i)))
     = [TEXT]"
  using C3_kind_roundtrip
    [of "\<lparr>questionText = utf16 ''Pick some'', type = CHECKBOX,
          options = Some [utf16 ''Red'', utf16 ''Blue''], isRequired = True\<rparr>" "\<lambda>i. i"]
    C3_kind_roundtrip
    [of "\<lparr>questionText = utf16 ''When?'', type = TIME, options = None, isRequired = False\<rparr>"
        "\<lambda>i. i"]
  by simp

text \<open>
  C4. Every question read back from any schema has \<open>isRequired = False\<close>; in particular a
  required question sent through the schema and read back is no longer required.
\<close>

theorem C4_required_lost:
  "(\<forall>q' \<in> set (getNotionDatabaseSchema schema). isRequired q' = False)
   \<and> (isRequired q \<longrightarrow>
        map isRequired (getNotionDatabaseSchema (createNotionSurveyDatabase [q] rnd)) = [False])"
proof -
  have "\<forall>q' \<in> set (getNotionDatabaseSchema schema). isRequired q' = False"
    by (auto simp: getNotionDatabaseSchema_def entries_questions_eq property_question_required)
  moreover have "map isRequired (getNotionDatabaseSchema (createNotionSurveyDatabase [q] rnd)) = [False]"
    by (simp add: roundtrip_single property_question_required)
  ultimately show ?thesis by blast
qed

theorem C4_required_lost_witness:
  "list_all (\<lambda>q'. isRequired q' = False)
     (getNotionDatabaseSchema
       [(utf16 ''Response ID'', Prop_title), (utf16 ''Q1: Age?'', Prop_number (utf16 ''number''))])
   \<and> map isRequired (getNotionDatabaseSchema (createNotionSurveyDatabase
      [\<lparr>questionText = utf16 ''Name?'', type = TEXT, options = None, isRequired = True\<rparr>]
      (\<lambda>i. 0)))
     = [False]"
  using C4_required_lost
    [of "[(utf16 ''Response ID'', Prop_title), (utf16 ''Q1: Age?'', Prop_number (utf16 ''number''))]"
        "\<lparr>questionText = utf16 ''Name?'', type = TEXT, options = None, isRequired = True\<rparr>"
        "\<lambda>i. 0"]
  by (simp add: list_all_iff)

text \<open>
  C10. A MULTIPLE_CHOICE or CHECKBOX question sent through the schema and read back keeps
  its option labels, the same and in the same order (an absent list reads as the empty
  one, as \<^verbatim>\<open>question.options || []\<close> has it); the colours are gone, a question having no
  place for them. A question of any other type comes back with an empty option list.
\<close>

theorem C10_options_roundtrip:
  "(type q \<in> {MULTIPLE_CHOICE, CHECKBOX} \<longrightarrow>
      map options (getNotionDatabaseSchema (createNotionSurveyDatabase [q] rnd)) = [Some (options_or_empty q)])
   \<and> (type q \<notin> {MULTIPLE_CHOICE, CHECKBOX} \<longrightarrow>
      map options (getNotionDatabaseSchema (createNotionSurveyDatabase [q] rnd)) = [Some []])"
  by (auto simp: roundtrip_single property_question_options)


theorem C10_options_roundtrip_witness:
  "map options (getNotionDatabaseSchema (createNotionSurveyDatabase
      [\<lparr>questionText = utf16 ''Pick some'', type = CHECKBOX,
         options = Some [utf16 ''Red'', utf16 ''Blue''], isRequired = True\<rparr>] (\<lambda>i. i)))
     = [Some [utf16 ''Red'', utf16 ''Blue'']]
   \<and> map options (getNotionDatabaseSchema (createNotionSurveyDatabase
      [\<lparr>questionText = utf16 ''How satisfied are you?'', type = SCALE,
         options = Some [utf16 ''5''], isRequired = True\<rparr>] (\<lambda>i. i)))
     = [Some []]"
  using C10_options_roundtrip
    [of "\<lparr>questionText = utf16 ''Pick some'', type = CHECKBOX,
          options = Some [utf16 ''Red'', utf16 ''Blue''], isRequired = True\<rparr>" "\<lambda>i. i"]
    C10_options_roundtrip
    [of "\<lparr>questionText = utf16 ''How satisfied are you?'', type = SCALE,
          options = Some [utf16 ''5''], isRequired = True\<rparr>" "\<lambda>i. i"]
  by (simp add: options_or_empty_def)

lemma questionMatch_iff: "questionMatch key = Some g \<longleftrightarrow> matches_question_pattern key g"
proof
  assume "questionMatch key = Some g"
  then obtain after_q where key: "key = 0x51 # after_q"
    and ds: "takeWhile is_digit after_q \<noteq> []"
    and dw: "dropWhile is_digit after_q = 0x3A # 0x20 # g"
    and g: "g \<noteq> []" "list_all (\<lambda>c. \<not> is_line_terminator c) g"
    by (auto simp: questionMatch_def split: list.splits if_splits)
  have "after_q = takeWhile is_digit after_q @ dropWhile is_digit after_q" by simp
  with dw have "after_q = takeWhile is_digit after_q @ 0x3A # 0x20 # g" by simp
  with key have "key = utf16 ''Q'' @ takeWhile is_digit after_q @ utf16 '': '' @ g"
    by (simp add: utf16_Q utf16_colon_space)
  moreover have "list_all is_digit (takeWhile is_digit after_q)"
    by (auto simp: list_all_iff dest: set_takeWhileD)
  ultimately show "matches_question_pattern key g"
    unfolding matches_question_pattern_def using ds g by blast
next
  assume "matches_question_pattern key g"
  then obtain ds where ds: "ds \<noteq> []" "list_all is_digit ds"
    and g: "g \<noteq> []" "list_all (\<lambda>c. \<not> is_line_terminator c) g"
    and key: "key = 0x51 # ds @ 0x3A # 0x20 # g"
    by (auto simp: matches_question_pattern_def utf16_Q utf16_colon_space)
  have tw: "takeWhile is_digit (ds @ 0x3A # 0x20 # g) = ds"
    using ds(2) colon_not_digit by (simp add: list_all_iff takeWhile_tail)
  have dw: "dropWhile is_digit (ds @ 0x3A # 0x20 # g) = 0x3A # 0x20 # g"
    using ds(2) colon_not_digit by (simp add: list_all_iff)
  show "questionMatch key = Some g"
    using ds(1) g by (simp add: questionMatch_def key tw dw)
qed

lemma property_question_text:
  "questionText (property_question key p)
     = (case questionMatch key of Some captured \<Rightarrow> captured | None \<Rightarrow> key)"
  by (cases p) (simp_all add: property_question_def Let_def)

lemma system_property_set:
  "system_property key \<longleftrightarrow>
     key \<in> {utf16 ''Response ID'', utf16 ''Submitted At'', utf16 ''Email''}"
  by (auto simp: system_property_def)

text \<open>
  C7. Reading a schema yields one question for each entry whose key is not Response ID,
  Submitted At or Email, in the order of the entries. The text of the question is the
  capture group when the key matches the pattern, and the whole key when it does not.
\<close>

theorem C7_schema_reading:
  "let kept = filter (\<lambda>(key, p). key \<notin> {utf16 ''Response ID'', utf16 ''Submitted At'', utf16 ''Email''})
                (Object_entries schema);
       questions = getNotionDatabaseSchema schema
   in length questions = length kept
      \<and> (\<forall>i < length kept.
           (\<forall>captured. matches_question_pattern (fst (kept ! i)) captured
              \<longrightarrow> questionText (questions ! i) = captured)
         \<and> ((\<nexists>captured. matches_question_pattern (fst (kept ! i)) captured)
              \<longrightarrow> questionText (questions ! i) = fst (kept ! i)))"
proof -
  define kept where "kept = filter (\<lambda>(key, p). \<not> system_property key) (Object_entries schema)"
  have qs: "getNotionDatabaseSchema schema = map (\<lambda>(key, p). property_question key p) kept"
    by (simp add: getNotionDatabaseSchema_def entries_questions_eq kept_def)
  have qtext: "questionText (getNotionDatabaseSchema schema ! i)
      = (case questionMatch (fst (kept ! i)) of Some captured \<Rightarrow> captured | None \<Rightarrow> fst (kept ! i))"
    if "i < length kept" for i
    using that by (simp add: qs case_prod_beta property_question_text)
  have "length (getNotionDatabaseSchema schema) = length kept" by (simp add: qs)
  moreover have "questionText (getNotionDatabaseSchema schema ! i) = captured"
    if "i < length kept" "matches_question_pattern (fst (kept ! i)) captured" for i captured
    using that qtext [of i] by (simp add: questionMatch_iff [symmetric])
  moreover have "questionText (getNotionDatabaseSchema schema ! i) = fst (kept ! i)"
    if "i < length kept" "\<nexists>captured. matches_question_pattern (fst (kept ! i)) captured" for i
  proof -
    from that(2) have "questionMatch (fst (kept ! i)) = None"
      by (cases "questionMatch (fst (kept ! i))") (auto simp: questionMatch_iff)
    with qtext [OF that(1)] show ?thesis by simp
  qed
  ultimately show ?thesis
    unfolding Let_def system_property_set [symmetric] kept_def [symmetric] by blast
qed

theorem C7_schema_reading_witness:
  "length (getNotionDatabaseSchema
      [(utf16 ''Response ID'', Prop_title),
       (utf16 ''Q12: Age?'', Prop_number (utf16 ''number'')),
       (utf16 ''Legacy column'', Prop_rich_text),
       (utf16 ''Email'', Prop_email)]) = 2
   \<and> questionText (getNotionDatabaseSchema
      [(utf16 ''Response ID'', Prop_title),
       (utf16 ''Q12: Age?'', Prop_number (utf16 ''number'')),
       (utf16 ''Legacy column'', Prop_rich_text),
       (utf16 ''Email'', Prop_email)] ! 0) = utf16 ''Age?''
   \<and> questionText (getNotionDatabaseSchema
      [(utf16 ''Response ID'', Prop_title),
       (utf16 ''Q12: Age?'', Prop_number (utf16 ''number'')),
       (utf16 ''Legacy column'', Prop_rich_text),
       (utf16 ''Email'', Prop_email)] ! 1) = utf16 ''Legacy column''"
proof -
  let ?schema = "[(utf16 ''Response ID'', Prop_title),
       (utf16 ''Q12: Age?'', Prop_number (utf16 ''number'')),
       (utf16 ''Legacy column'', Prop_rich_text),
       (utf16 ''Email'', Prop_email)]"
  have kept: "filter (\<lambda>(key, p). key \<notin> {utf16 ''Response ID'', utf16 ''Submitted At'', utf16 ''Email''})
        (Object_entries ?schema)
      = [(utf16 ''Q12: Age?'', Prop_number (utf16 ''number'')),
         (utf16 ''Legacy column'', Prop_rich_text)]"
    by (simp add: Object_entries_def array_index_def utf16_def is_digit_def)
  have m: "matches_question_pattern (utf16 ''Q12: Age?'') (utf16 ''Age?'')"
    unfolding questionMatch_iff [symmetric]
    by (simp add: questionMatch_def utf16_def is_digit_def is_line_terminator_def)
  have n: "\<nexists>captured. matches_question_pattern (utf16 ''Legacy column'') captured"
    unfolding questionMatch_iff [symmetric]
    by (simp add: questionMatch_def utf16_def is_digit_def is_line_terminator_def)
  from C7_schema_reading [of ?schema]
  have len: "length (getNotionDatabaseSchema ?schema) = 2"
    and each: "\<And>i. i < 2 \<Longrightarrow>
           (\<forall>captured. matches_question_pattern (fst ([(utf16 ''Q12: Age?'', Prop_number (utf16 ''number'')),
         (utf16 ''Legacy column'', Prop_rich_text)] ! i)) captured
              \<longrightarrow> questionText (getNotionDatabaseSchema ?schema ! i) = captured)
         \<and> ((\<nexists>captured. matches_question_pattern (fst ([(utf16 ''Q12: Age?'', Prop_number (utf16 ''number'')),
         (utf16 ''Legacy column'', Prop_rich_text)] ! i)) captured)
              \<longrightarrow> questionText (getNotionDatabaseSchema ?schema ! i) = fst ([(utf16 ''Q12: Age?'', Prop_number (utf16 ''number'')),
         (utf16 ''Legacy column'', Prop_rich_text)] ! i))"
    unfolding Let_def kept by simp_all
  from each [of 0] m have "questionText (getNotionDatabaseSchema ?schema ! 0) = utf16 ''Age?''"
    by simp
  moreover from each [of 1] n have "questionText (getNotionDatabaseSchema ?schema ! 1) = utf16 ''Legacy column''"
    by simp
  ultimately show ?thesis using len by simp
qed

section \<open>The posted properties of a response\<close>

lemma Object_entries_mset: "mset (Object_entries obj) = mset obj"
  by (simp add: Object_entries_def case_prod_beta)

lemma Object_entries_set: "set (Object_entries obj) = set obj"
  using Object_entries_mset [of obj] by (rule mset_eq_setD)

lemma Object_entries_distinct:
  "distinct (map fst (Object_entries obj)) \<longleftrightarrow> distinct (map fst obj)"
proof -
  have "mset (map fst (Object_entries obj)) = mset (map fst obj)"
    using Object_entries_mset [of obj] by (metis mset_map)
  then show ?thesis by (rule mset_eq_imp_distinct_iff)
qed

lemma Object_entries_filter:
  "Object_entries (filter Q obj) = filter Q (Object_entries obj)"
  by (simp add: Object_entries_def filter_sort conj_commute)

lemma Object_entries_map_of:
  "distinct (map fst obj) \<Longrightarrow> map_of (Object_entries obj) = map_of obj"
  using Object_entries_set [of obj] Object_entries_distinct [of obj]
  by (simp add: map_of_inject_set)

lemma response_property_skip: "\<not> encodable v \<Longrightarrow> response_property v = Inr None"
  by (cases v) (simp_all add: encodable_def response_property_def)

lemma response_property_some: "response_property v = Inr (Some p) \<Longrightarrow> encodable v"
  by (cases v) (simp_all add: encodable_def response_property_def)

lemma response_property_values:
  "response_property (JString s) = Inr (Some (Page_rich_text s))"
  "response_property (JNumber n) = Inr (Some (Page_number n))"
  "response_property (JArray vs) = Inr (Some (Page_multi_select vs))"
  "response_property (JDate (Some t)) = Inr (Some (Page_date t))"
  by (simp_all add: response_property_def)

lemma map_of_set_property:
  "map_of (set_property key p props) k
     = (if key = utf16 ''__proto__'' then map_of props k else ((map_of props)(key \<mapsto> p)) k)"
  by (simp add: set_property_def AList.update_conv')

lemma map_responses_skip:
  "(\<And>k v. (k, v) \<in> set es \<Longrightarrow> k = key \<Longrightarrow> \<not> encodable v) \<Longrightarrow>
   map_responses (filter (\<lambda>(k, v). k \<noteq> key) es) props = map_responses es props"
proof (induction es arbitrary: props)
  case Nil
  then show ?case by simp
next
  case (Cons e es)
  obtain k v where e: "e = (k, v)" by (cases e)
  have rest: "map_responses (filter (\<lambda>(k, v). k \<noteq> key) es) ps = map_responses es ps" for ps
    using Cons.prems by (intro Cons.IH) auto
  show ?case
  proof (cases "k = key")
    case True
    with Cons.prems [of k v] e have "response_property v = Inr None"
      by (simp add: response_property_skip)
    with True e rest show ?thesis by simp
  next
    case False
    with e rest show ?thesis by (simp split: sum.split option.split)
  qed
qed

lemma map_responses_map_of:
  "map_responses es props = Inr payload \<Longrightarrow> distinct (map fst es) \<Longrightarrow>
   map_of payload k =
     (case map_of es k of
        None \<Rightarrow> map_of props k
      | Some v \<Rightarrow>
          (case response_property v of
             Inr (Some p) \<Rightarrow> if k = utf16 ''__proto__'' then map_of props k else Some p
           | _ \<Rightarrow> map_of props k))"
proof (induction es arbitrary: props)
  case Nil
  then show ?case by simp
next
  case (Cons e es)
  obtain key v where e: "e = (key, v)" by (cases e)
  from Cons.prems(2) e have d: "distinct (map fst es)" and fresh: "map_of es key = None"
    by (auto simp: map_of_eq_None_iff)
  show ?case
  proof (cases "response_property v")
    case (Inl err)
    with Cons.prems(1) e show ?thesis by simp
  next
    case (Inr r)
    show ?thesis
    proof (cases r)
      case None
      with Inr Cons.prems(1) e have "map_responses es props = Inr payload" by simp
      from Cons.IH [OF this d] Inr None e fresh show ?thesis by simp
    next
      case (Some p)
      with Inr Cons.prems(1) e
      have "map_responses es (set_property key p props) = Inr payload" by simp
      from Cons.IH [OF this d] Inr Some e fresh show ?thesis
        by (simp add: map_of_set_property split: option.split sum.split)
    qed
  qed
qed

lemma map_responses_total:
  "(\<And>k v. (k, v) \<in> set es \<Longrightarrow> v \<noteq> JDate None) \<Longrightarrow> \<exists>payload. map_responses es props = Inr payload"
proof (induction es arbitrary: props)
  case Nil
  then show ?case by simp
next
  case (Cons e es)
  obtain key v where e: "e = (key, v)" by (cases e)
  from Cons.prems [of key v] e have "v \<noteq> JDate None" by simp
  then obtain r where r: "response_property v = Inr r"
    by (cases v) (auto simp: response_property_def split: option.split)
  have "\<exists>payload. map_responses es ps = Inr payload" for ps
    using Cons.prems by (intro Cons.IH) auto
  with e r show ?case by (cases r) simp_all
qed

lemma generated_map_of:
  "map_of (generated_properties now_ms now_date) k =
     (if k = utf16 ''Response ID'' then Some (Page_title (utf16 ''Response-'' @ int_to_string now_ms))
      else if k = utf16 ''Submitted At'' then Some (Page_date now_date)
      else None)"
  by (simp add: generated_properties_def)

lemma proto_not_generated:
  "utf16 ''__proto__'' \<noteq> utf16 ''Response ID''" "utf16 ''__proto__'' \<noteq> utf16 ''Submitted At''"
  "utf16 ''Submitted At'' \<noteq> utf16 ''Response ID''"
  by (simp_all add: utf16_def)

lemma submit_map_of:
  assumes "submitNotionResponse configured now_ms now_date responses = Inr payload"
    and "distinct (map fst responses)"
  shows "map_of payload k =
     (case map_of responses k of
        None \<Rightarrow> map_of (generated_properties now_ms now_date) k
      | Some v \<Rightarrow>
          (case response_property v of
             Inr (Some p) \<Rightarrow>
               if k = utf16 ''__proto__'' then map_of (generated_properties now_ms now_date) k
               else Some p
           | _ \<Rightarrow> map_of (generated_properties now_ms now_date) k))"
proof -
  from assms(1) have m: "map_responses (Object_entries responses)
      (generated_properties now_ms now_date) = Inr payload"
    by (simp add: submitNotionResponse_def split: if_splits)
  from assms(2) have "distinct (map fst (Object_entries responses))"
    by (simp add: Object_entries_distinct)
  from map_responses_map_of [OF m this, of k] assms(2) show ?thesis
    by (simp add: Object_entries_map_of)
qed

lemma submit_posts:
  assumes "submitNotionResponse configured now_ms now_date responses = Inr payload"
    and "distinct (map fst responses)"
    and "(key, v) \<in> set responses" and "response_property v = Inr (Some p)"
    and "key \<noteq> utf16 ''__proto__''"
  shows "map_of payload key = Some p"
proof -
  from assms(2,3) have "map_of responses key = Some v" by simp
  with submit_map_of [OF assms(1,2), of key] assms(4,5) show ?thesis by simp
qed

lemma submit_keeps:
  assumes "submitNotionResponse configured now_ms now_date responses = Inr payload"
    and "distinct (map fst responses)"
    and "key = utf16 ''__proto__'' \<or> (\<forall>v. (key, v) \<in> set responses \<longrightarrow> \<not> encodable v)"
  shows "map_of payload key = map_of (generated_properties now_ms now_date) key"
proof (cases "map_of responses key")
  case None
  with submit_map_of [OF assms(1,2), of key] show ?thesis by simp
next
  case (Some v)
  then have in_set: "(key, v) \<in> set responses" by (rule map_of_SomeD)
  show ?thesis
  proof (cases "key = utf16 ''__proto__''")
    case True
    with submit_map_of [OF assms(1,2), of key] Some show ?thesis
      by (simp split: sum.split option.split)
  next
    case False
    with assms(3) in_set have "\<not> encodable v" by blast
    with submit_map_of [OF assms(1,2), of key] Some show ?thesis
      by (simp add: response_property_skip)
  qed
qed

text \<open>
  C5. An entry of the responses whose value is not a string, a number, an array or a Date
  is skipped without a trace: the function posts, or fails, exactly as it does on the
  responses without that entry, and the key of the entry is absent from the posted
  properties unless it is one of the two generated keys. An array is not skipped,
  whatever its elements are: under every key but \<^verbatim>\<open>__proto__\<close> it is posted as the
  multi-select of its elements. The keys of an object are distinct.
\<close>

theorem C5_unsupported_skipped:
  assumes "distinct (map fst responses)"
  shows "(\<forall>key v. (key, v) \<in> set responses \<and> \<not> encodable v \<longrightarrow>
            submitNotionResponse configured now_ms now_date responses
              = submitNotionResponse configured now_ms now_date
                  (filter (\<lambda>(k, v'). k \<noteq> key) responses)
            \<and> (\<forall>payload. submitNotionResponse configured now_ms now_date responses = Inr payload
                  \<and> key \<noteq> utf16 ''Response ID'' \<and> key \<noteq> utf16 ''Submitted At''
                \<longrightarrow> key \<notin> fst ` set payload))
         \<and> (\<forall>key vs payload. (key, JArray vs) \<in> set responses \<and> key \<noteq> utf16 ''__proto__''
                \<and> submitNotionResponse configured now_ms now_date responses = Inr payload
              \<longrightarrow> map_of payload key = Some (Page_multi_select vs))"
proof -
  have same: "submitNotionResponse configured now_ms now_date responses
      = submitNotionResponse configured now_ms now_date (filter (\<lambda>(k, v'). k \<noteq> key) responses)"
    if kv: "(key, v) \<in> set responses" and un: "\<not> encodable v" for key v
  proof -
    have only: "\<not> encodable v'" if "(k, v') \<in> set (Object_entries responses)" "k = key" for k v'
    proof -
      from that have "(key, v') \<in> set responses" by (simp add: Object_entries_set)
      with kv assms have "v' = v" by (auto dest: eq_key_imp_eq_value)
      with un show ?thesis by simp
    qed
    show ?thesis
      using map_responses_skip [of "Object_entries responses" key, OF only]
      by (simp add: submitNotionResponse_def Object_entries_filter)
  qed
  have absent: "key \<notin> fst ` set payload"
    if kv: "(key, v) \<in> set responses" and un: "\<not> encodable v"
      and enc: "submitNotionResponse configured now_ms now_date responses = Inr payload"
      and k: "key \<noteq> utf16 ''Response ID''" "key \<noteq> utf16 ''Submitted At''" for key v payload
  proof -
    have "\<forall>v'. (key, v') \<in> set responses \<longrightarrow> \<not> encodable v'"
      using kv un assms by (auto dest: eq_key_imp_eq_value)
    then have "map_of payload key = map_of (generated_properties now_ms now_date) key"
      by (intro submit_keeps [OF enc assms]) simp
    with k have "map_of payload key = None" by (simp add: generated_map_of)
    then show ?thesis by (simp add: map_of_eq_None_iff)
  qed
  have arrays: "map_of payload key = Some (Page_multi_select vs)"
    if "(key, JArray vs) \<in> set responses" "key \<noteq> utf16 ''__proto__''"
      "submitNotionResponse configured now_ms now_date responses = Inr payload"
    for key vs payload
    using that by (intro submit_posts [OF that(3) assms that(1) _ that(2)])
      (simp add: response_property_values)
  from same absent arrays show ?thesis by blast
qed

theorem C5_unsupported_skipped_witness:
  "submitNotionResponse True 5 7
     [(utf16 ''Q1: Name?'', JString (utf16 ''Ann'')),
      (utf16 ''Q2: Extra'', JObject [(utf16 ''a'', JNumber (1::int))]),
      (utf16 ''Q3: Pick'', JArray [JNumber 1, JString (utf16 ''x'')])]
   = submitNotionResponse True 5 7
     [(utf16 ''Q1: Name?'', JString (utf16 ''Ann'')),
      (utf16 ''Q3: Pick'', JArray [JNumber 1, JString (utf16 ''x'')])]
   \<and> submitNotionResponse True 5 7
     [(utf16 ''Q1: Name?'', JString (utf16 ''Ann'')),
      (utf16 ''Q2: Extra'', JObject [(utf16 ''a'', JNumber (1::int))]),
      (utf16 ''Q3: Pick'', JArray [JNumber 1, JString (utf16 ''x'')])]
   = Inr [(utf16 ''Response ID'', Page_title (utf16 ''Response-5'')),
          (utf16 ''Submitted At'', Page_date 7),
          (utf16 ''Q1: Name?'', Page_rich_text (utf16 ''Ann'')),
          (utf16 ''Q3: Pick'', Page_multi_select [JNumber 1, JString (utf16 ''x'')])]
   \<and> map_of [(utf16 ''Response ID'', Page_title (utf16 ''Response-5'')),
          (utf16 ''Submitted At'', Page_date 7),
          (utf16 ''Q1: Name?'', Page_rich_text (utf16 ''Ann'')),
          (utf16 ''Q3: Pick'', Page_multi_select [JNumber (1::int), JString (utf16 ''x'')])]
        (utf16 ''Q3: Pick'')
      = Some (Page_multi_select [JNumber 1, JString (utf16 ''x'')])"
proof -
  let ?responses = "[(utf16 ''Q1: Name?'', JString (utf16 ''Ann'')),
      (utf16 ''Q2: Extra'', JObject [(utf16 ''a'', JNumber (1::int))]),
      (utf16 ''Q3: Pick'', JArray [JNumber 1, JString (utf16 ''x'')])]"
  let ?payload = "[(utf16 ''Response ID'', Page_title (utf16 ''Response-5'')),
          (utf16 ''Submitted At'', Page_date 7),
          (utf16 ''Q1: Name?'', Page_rich_text (utf16 ''Ann'')),
          (utf16 ''Q3: Pick'', Page_multi_select [JNumber (1::int), JString (utf16 ''x'')])]"
  have 1: "(utf16 ''Q2: Extra'', JObject [(utf16 ''a'', JNumber (1::int))]) \<in> set ?responses"
    by simp
  have 2: "\<not> encodable (JObject [(utf16 ''a'', JNumber (1::int))])"
    by (simp add: encodable_def)
  have 3: "distinct (map fst ?responses)" by (simp add: utf16_def)
  have 4: "filter (\<lambda>(k, v'). k \<noteq> utf16 ''Q2: Extra'') ?responses
      = [(utf16 ''Q1: Name?'', JString (utf16 ''Ann'')),
         (utf16 ''Q3: Pick'', JArray [JNumber 1, JString (utf16 ''x'')])]"
    by (simp add: utf16_def)
  have 5: "submitNotionResponse True 5 7
      [(utf16 ''Q1: Name?'', JString (utf16 ''Ann'')),
       (utf16 ''Q3: Pick'', JArray [JNumber (1::int), JString (utf16 ''x'')])] = Inr ?payload"
    by (simp add: submitNotionResponse_def Object_entries_def array_index_def is_digit_def
        generated_properties_def response_property_def int_to_string_def decimal.simps
        digit_def utf16_def set_property_def)
  have 6: "(utf16 ''Q3: Pick'', JArray [JNumber (1::int), JString (utf16 ''x'')]) \<in> set ?responses"
    by simp
  have 7: "utf16 ''Q3: Pick'' \<noteq> utf16 ''__proto__''" by (simp add: utf16_def)
  note inst = C5_unsupported_skipped [OF 3, of True 5 7]
  from inst 1 2 have same: "submitNotionResponse True 5 7 ?responses
      = submitNotionResponse True 5 7 (filter (\<lambda>(k, v'). k \<noteq> utf16 ''Q2: Extra'') ?responses)"
    by blast
  with 4 5 have post: "submitNotionResponse True 5 7 ?responses = Inr ?payload" by simp
  from inst 6 7 post have "map_of ?payload (utf16 ''Q3: Pick'')
      = Some (Page_multi_select [JNumber 1, JString (utf16 ''x'')])"
    by blast
  with same 4 post show ?thesis by simp
qed

text \<open>
  Against C5 as it is worded, an array need not hold strings to be kept: an array of
  numbers is none of the values the specification lists, and its key is in the payload.
\<close>

theorem C5_counterexample:
  "\<not> spec_supported (JArray [JNumber (1::int)])
   \<and> submitNotionResponse True 5 7 [(utf16 ''Q1: Pick'', JArray [JNumber (1::int)])]
     = Inr [(utf16 ''Response ID'', Page_title (utf16 ''Response-5'')),
            (utf16 ''Submitted At'', Page_date 7),
            (utf16 ''Q1: Pick'', Page_multi_select [JNumber 1])]"
  by (simp add: spec_supported_def submitNotionResponse_def Object_entries_def array_index_def
      is_digit_def generated_properties_def response_property_def int_to_string_def
      decimal.simps digit_def utf16_def set_property_def)

text \<open>
  C6. When the API is configured and no answer is an invalid Date, a payload is produced.
  It maps Response ID to the title made of the current time in milliseconds, and
  Submitted At to the current date, unless the responses themselves carry a string, a
  number, an array or a Date under that key. Every string, number, array and valid Date
  of the responses is in the payload under its key, as a rich text, a number, a
  multi-select and a date, also under Response ID or Submitted At, where it takes the
  place of the generated entry; the one exception is the key \<^verbatim>\<open>__proto__\<close>, whose
  answer is not posted. The payload has no other entry.
\<close>

theorem C6_generated_entries:
  assumes "configured" and "distinct (map fst responses)"
    and "\<forall>(key, v) \<in> set responses. v \<noteq> JDate None"
  shows "\<exists>payload. submitNotionResponse configured now_ms now_date responses = Inr payload
      \<and> ((\<forall>v. (utf16 ''Response ID'', v) \<in> set responses \<longrightarrow> \<not> encodable v)
           \<longrightarrow> map_of payload (utf16 ''Response ID'')
                 = Some (Page_title (utf16 ''Response-'' @ int_to_string now_ms)))
      \<and> ((\<forall>v. (utf16 ''Submitted At'', v) \<in> set responses \<longrightarrow> \<not> encodable v)
           \<longrightarrow> map_of payload (utf16 ''Submitted At'') = Some (Page_date now_date))
      \<and> (\<forall>key s. (key, JString s) \<in> set responses \<and> key \<noteq> utf16 ''__proto__''
            \<longrightarrow> map_of payload key = Some (Page_rich_text s))
      \<and> (\<forall>key n. (key, JNumber n) \<in> set responses \<and> key \<noteq> utf16 ''__proto__''
            \<longrightarrow> map_of payload key = Some (Page_number n))
      \<and> (\<forall>key vs. (key, JArray vs) \<in> set responses \<and> key \<noteq> utf16 ''__proto__''
            \<longrightarrow> map_of payload key = Some (Page_multi_select vs))
      \<and> (\<forall>key t. (key, JDate (Some t)) \<in> set responses \<and> key \<noteq> utf16 ''__proto__''
            \<longrightarrow> map_of payload key = Some (Page_date t))
      \<and> (\<forall>key. key \<noteq> utf16 ''Response ID'' \<and> key \<noteq> utf16 ''Submitted At''
              \<and> (key = utf16 ''__proto__''
                   \<or> (\<forall>v. (key, v) \<in> set responses \<longrightarrow> \<not> encodable v))
            \<longrightarrow> map_of payload key = None)"
proof -
  have "\<exists>payload. map_responses (Object_entries responses)
      (generated_properties now_ms now_date) = Inr payload"
    using assms(3) by (intro map_responses_total) (auto simp: Object_entries_set)
  with assms(1) obtain payload
    where enc: "submitNotionResponse configured now_ms now_date responses = Inr payload"
    by (auto simp: submitNotionResponse_def)
  note keeps = submit_keeps [OF enc assms(2)]
  note posts = submit_posts [OF enc assms(2)]
  have rid: "map_of payload (utf16 ''Response ID'')
      = Some (Page_title (utf16 ''Response-'' @ int_to_string now_ms))"
    if "\<forall>v. (utf16 ''Response ID'', v) \<in> set responses \<longrightarrow> \<not> encodable v"
    using keeps [of "utf16 ''Response ID''"] that by (simp add: generated_map_of)
  have sat: "map_of payload (utf16 ''Submitted At'') = Some (Page_date now_date)"
    if "\<forall>v. (utf16 ''Submitted At'', v) \<in> set responses \<longrightarrow> \<not> encodable v"
    using keeps [of "utf16 ''Submitted At''"] that
    by (simp add: generated_map_of proto_not_generated)
  have str: "map_of payload key = Some (Page_rich_text s)"
    if "(key, JString s) \<in> set responses" "key \<noteq> utf16 ''__proto__''" for key s
    by (rule posts [OF that(1) _ that(2)]) (simp add: response_property_values)
  have num: "map_of payload key = Some (Page_number n)"
    if "(key, JNumber n) \<in> set responses" "key \<noteq> utf16 ''__proto__''" for key n
    by (rule posts [OF that(1) _ that(2)]) (simp add: response_property_values)
  have arr: "map_of payload key = Some (Page_multi_select vs)"
    if "(key, JArray vs) \<in> set responses" "key \<noteq> utf16 ''__proto__''" for key vs
    by (rule posts [OF that(1) _ that(2)]) (simp add: response_property_values)
  have dat: "map_of payload key = Some (Page_date t)"
    if "(key, JDate (Some t)) \<in> set responses" "key \<noteq> utf16 ''__proto__''" for key t
    by (rule posts [OF that(1) _ that(2)]) (simp add: response_property_values)
  have none: "map_of payload key = None"
    if "key \<noteq> utf16 ''Response ID''" "key \<noteq> utf16 ''Submitted At''"
      "key = utf16 ''__proto__'' \<or> (\<forall>v. (key, v) \<in> set responses \<longrightarrow> \<not> encodable v)"
    for key
    using keeps [of key] that by (simp add: generated_map_of)
  show ?thesis
    apply (intro exI [of _ payload] conjI)
    subgoal by (rule enc)
    subgoal by (intro impI) (erule rid)
    subgoal by (intro impI) (erule sat)
    subgoal by (intro allI impI, elim conjE) (rule str; assumption)
    subgoal by (intro allI impI, elim conjE) (rule num; assumption)
    subgoal by (intro allI impI, elim conjE) (rule arr; assumption)
    subgoal by (intro allI impI, elim conjE) (rule dat; assumption)
    subgoal by (intro allI impI, elim conjE) (rule none; assumption)
    done
qed

text \<open>
  The example of the specification: the form files the answer 4 to the first question
  under the key of that question, and the payload has the two generated entries and the
  answer. An answer filed under \<^verbatim>\<open>__proto__\<close> beside it is not posted.
\<close>

theorem C6_generated_entries_witness:
  "responseKey 0 \<lparr>questionText = utf16 ''How satisfied are you?'', type = SCALE,
       options = Some [utf16 ''5''], isRequired = True\<rparr>
     = utf16 ''Q1: How satisfied are you?''
   \<and> submitNotionResponse True 1700000000000 1700000000001
       [(utf16 ''Q1: How satisfied are you?'', JNumber (4::int))]
     = Inr [(utf16 ''Response ID'', Page_title (utf16 ''Response-1700000000000'')),
            (utf16 ''Submitted At'', Page_date 1700000000001),
            (utf16 ''Q1: How satisfied are you?'', Page_number 4)]
   \<and> (\<exists>payload.
        submitNotionResponse True 1700000000000 1700000000001
          [(utf16 ''Q1: How satisfied are you?'', JNumber (4::int)),
           (utf16 ''__proto__'', JString (utf16 ''x''))] = Inr payload
        \<and> map_of payload (utf16 ''Response ID'')
            = Some (Page_title (utf16 ''Response-'' @ int_to_string 1700000000000))
        \<and> map_of payload (utf16 ''Submitted At'') = Some (Page_date 1700000000001)
        \<and> map_of payload (utf16 ''Q1: How satisfied are you?'') = Some (Page_number 4)
        \<and> map_of payload (utf16 ''__proto__'') = None)"
proof -
  let ?responses = "[(utf16 ''Q1: How satisfied are you?'', JNumber (4::int)),
           (utf16 ''__proto__'', JString (utf16 ''x''))]"
  have 0: "responseKey 0 \<lparr>questionText = utf16 ''How satisfied are you?'', type = SCALE,
       options = Some [utf16 ''5''], isRequired = True\<rparr>
     = utf16 ''Q1: How satisfied are you?''"
    by (simp add: responseKey_def sanitizePropertyName_def utf16_def decimal.simps digit_def)
  have 1: "distinct (map fst ?responses)" by (simp add: utf16_def)
  have 2: "\<forall>(key, v) \<in> set ?responses. v \<noteq> JDate None" by simp
  have 3: "\<forall>v. (utf16 ''Response ID'', v) \<in> set ?responses \<longrightarrow> \<not> encodable v"
    "\<forall>v. (utf16 ''Submitted At'', v) \<in> set ?responses \<longrightarrow> \<not> encodable v"
    by (simp_all add: utf16_def)
  have 4: "(utf16 ''Q1: How satisfied are you?'', JNumber (4::int)) \<in> set ?responses"
    "utf16 ''Q1: How satisfied are you?'' \<noteq> utf16 ''__proto__''"
    "utf16 ''__proto__'' \<noteq> utf16 ''Response ID''"
    "utf16 ''__proto__'' \<noteq> utf16 ''Submitted At''"
    by (simp_all add: utf16_def)
  have 5: "submitNotionResponse True 1700000000000 1700000000001
       [(utf16 ''Q1: How satisfied are you?'', JNumber (4::int))]
     = Inr [(utf16 ''Response ID'', Page_title (utf16 ''Response-1700000000000'')),
            (utf16 ''Submitted At'', Page_date 1700000000001),
            (utf16 ''Q1: How satisfied are you?'', Page_number 4)]"
    by (simp add: submitNotionResponse_def Object_entries_def array_index_def is_digit_def
        generated_properties_def response_property_def int_to_string_def decimal.simps
        digit_def utf16_def set_property_def)
  from C6_generated_entries [of True ?responses 1700000000000 1700000000001, OF TrueI 1 2]
  obtain payload where p:
    "submitNotionResponse True 1700000000000 1700000000001 ?responses = Inr payload"
    "(\<forall>v. (utf16 ''Response ID'', v) \<in> set ?responses \<longrightarrow> \<not> encodable v)
       \<longrightarrow> map_of payload (utf16 ''Response ID'')
             = Some (Page_title (utf16 ''Response-'' @ int_to_string 1700000000000))"
    "(\<forall>v. (utf16 ''Submitted At'', v) \<in> set ?responses \<longrightarrow> \<not> encodable v)
       \<longrightarrow> map_of payload (utf16 ''Submitted At'') = Some (Page_date 1700000000001)"
    "\<forall>key n. (key, JNumber n) \<in> set ?responses \<and> key \<noteq> utf16 ''__proto__''
        \<longrightarrow> map_of payload key = Some (Page_number n)"
    "\<forall>key. key \<noteq> utf16 ''Response ID'' \<and> key \<noteq> utf16 ''Submitted At''
          \<and> (key = utf16 ''__proto__''
               \<or> (\<forall>v. (key, v) \<in> set ?responses \<longrightarrow> \<not> encodable v))
        \<longrightarrow> map_of payload key = None"
    by (elim exE conjE) (rule that; assumption)
  from p(2) 3(1) have a: "map_of payload (utf16 ''Response ID'')
      = Some (Page_title (utf16 ''Response-'' @ int_to_string 1700000000000))" by (rule mp)
  from p(3) 3(2) have b: "map_of payload (utf16 ''Submitted At'')
      = Some (Page_date 1700000000001)" by (rule mp)
  have c: "map_of payload (utf16 ''Q1: How satisfied are you?'') = Some (Page_number 4)"
    by (rule p(4) [rule_format, OF conjI [OF 4(1) 4(2)]])
  have d: "map_of payload (utf16 ''__proto__'') = None"
    by (rule p(5) [rule_format, OF conjI [OF 4(3) conjI [OF 4(4) disjI1 [OF refl]]]])
  show ?thesis
    apply (intro conjI exI [of _ payload])
    subgoal by (rule 0)
    subgoal by (rule 5)
    subgoal by (rule p(1))
    subgoal by (rule a)
    subgoal by (rule b)
    subgoal by (rule c)
    subgoal by (rule d)
    done
qed

text \<open>
  Against C6 as it is worded, for every input: a response filed under Response ID takes
  the place of the generated entry.
\<close>

theorem C6_counterexample:
  "submitNotionResponse True 5 7 [(utf16 ''Response ID'', JString (utf16 ''mine'') :: int js_value)]
     = Inr [(utf16 ''Response ID'', Page_rich_text (utf16 ''mine'')),
            (utf16 ''Submitted At'', Page_date 7)]"
  by (simp add: submitNotionResponse_def Object_entries_def array_index_def is_digit_def
      generated_properties_def response_property_def utf16_def set_property_def)

section \<open>Reading and saving form metadata\<close>





text \<open>
  C8. Both readers return the empty list when nothing, the empty string or an unparseable
  string is stored, and neither fails. \<open>getFormsMetadata\<close> removes an unparseable
  string and otherwise leaves the storage as it is; \<open>getEmailHistory\<close> never changes
  the storage.
\<close>

theorem C8_reads_on_bad_storage:
  "(ls STORAGE_KEY \<in> {None, Some Empty_text, Some Unparseable}
      \<longrightarrow> fst (getFormsMetadata ls) = [])
   \<and> (ls STORAGE_KEY = Some Unparseable
      \<longrightarrow> snd (getFormsMetadata ls) = ls(STORAGE_KEY := None))
   \<and> (ls STORAGE_KEY \<noteq> Some Unparseable \<longrightarrow> snd (getFormsMetadata ls) = ls)
   \<and> (hs EMAIL_HISTORY_KEY \<in> {None, Some Empty_text, Some Unparseable}
      \<longrightarrow> fst (getEmailHistory hs) = [])
   \<and> snd (getEmailHistory hs) = hs"
  by (auto simp: getFormsMetadata_def getEmailHistory_def split: option.split stored.split)

theorem C8_reads_on_bad_storage_witness:
  "fst (getFormsMetadata [STORAGE_KEY \<mapsto> Unparseable]) = []
   \<and> snd (getFormsMetadata [STORAGE_KEY \<mapsto> Unparseable]) = Map.empty
   \<and> fst (getEmailHistory [EMAIL_HISTORY_KEY \<mapsto> Unparseable]) = []
   \<and> snd (getEmailHistory [EMAIL_HISTORY_KEY \<mapsto> Unparseable])
       = [EMAIL_HISTORY_KEY \<mapsto> Unparseable]"
  using C8_reads_on_bad_storage
    [of "[STORAGE_KEY \<mapsto> Unparseable]" "[EMAIL_HISTORY_KEY \<mapsto> Unparseable]"]
  by simp

text \<open>
  Against C8 as it is worded: after \<open>getEmailHistory\<close> has read an unparseable string,
  the string is still stored.
\<close>

theorem C8_counterexample:
  "fst (getEmailHistory [EMAIL_HISTORY_KEY \<mapsto> Unparseable]) = []
   \<and> snd (getEmailHistory [EMAIL_HISTORY_KEY \<mapsto> Unparseable]) EMAIL_HISTORY_KEY
       = Some Unparseable"
  by (simp add: getEmailHistory_def)



section \<open>The key of a question: schema side against response side\<close>

text \<open>
  C1. The claim: for every index and question text, schema creation and response
  encoding alike name the question \<open>Q\<close>, the index plus one, a colon, a space and the
  text with every comma turned into a semicolon. The response form does so; schema
  creation uses the text as it is. At index 0 and the text of the example the database
  property keeps its commas, while the answer is filed under the name with semicolons.
\<close>

theorem C1_schema_key_keeps_commas:
  "propertyName 0 \<lparr>questionText = utf16 ''Do you like A, B, or C?'', type = TEXT,
       options = None, isRequired = False\<rparr>
     = utf16 ''Q1: Do you like A, B, or C?''
   \<and> responseKey 0 \<lparr>questionText = utf16 ''Do you like A, B, or C?'', type = TEXT,
       options = None, isRequired = False\<rparr>
     = utf16 ''Q1: Do you like A; B; or C?''
   \<and> utf16 ''Q1: Do you like A, B, or C?'' \<noteq> utf16 ''Q1: Do you like A; B; or C?''"
  by (simp add: propertyName_def responseKey_def sanitizePropertyName_def utf16_def
      decimal.simps digit_def)

end
